theory Spec2Isabelle
  imports Main
begin

section \<open>Values and log records (log/slog, as used by the logger package)\<close>

text \<open>
  The dynamic value of a log attribute, as \<open>a.Value.Any()\<close> hands it to
  \<open>mapAttribute\<close>. \<open>time.Duration\<close> is an int64 count of nanoseconds;
  \<open>VOther\<close> stands for any Go value of another type (a float, a channel, a slice ...),
  told apart by a tag.
\<close>

datatype val =
    VString string
  | VInt64 int
  | VBool bool
  | VDuration int
  | VOther nat

type_synonym attr = "string \<times> val"

text \<open>\<open>slog.Record\<close>: the time is kept abstract (type \<open>'t\<close>), the level is an int.\<close>

record 't Record =
  Time :: 't
  Message :: string
  Level :: int
  Attrs :: "attr list"

definition LevelDebug :: int where "LevelDebug = -4"
definition LevelInfo :: int where "LevelInfo = 0"
definition LevelWarn :: int where "LevelWarn = 4"
definition LevelError :: int where "LevelError = 8"

subsection \<open>Decimal rendering (strconv.Itoa, and the \<open>%+d\<close> of slog.Level.String)\<close>

definition digitChar :: "nat \<Rightarrow> char" where
  "digitChar n = char_of (48 + n)"

fun natDigits :: "nat \<Rightarrow> string" where
  "natDigits n = (if n < 10 then [digitChar n] else natDigits (n div 10) @ [digitChar (n mod 10)])"

declare natDigits.simps [simp del]

definition Itoa :: "int \<Rightarrow> string" where
  "Itoa i = (if i < 0 then CHR ''-'' # natDigits (nat (- i)) else natDigits (nat i))"

definition Level_str :: "string \<Rightarrow> int \<Rightarrow> string" where
  "Level_str base v =
     (if v = 0 then base
      else base @ (if v < 0 then Itoa v else CHR ''+'' # Itoa v))"

definition Level_String :: "int \<Rightarrow> string" where
  "Level_String l =
     (if l < LevelInfo then Level_str ''DEBUG'' (l - LevelDebug)
      else if l < LevelWarn then Level_str ''INFO'' (l - LevelInfo)
      else if l < LevelError then Level_str ''WARN'' (l - LevelWarn)
      else Level_str ''ERROR'' (l - LevelError))"

subsection \<open>The wrapped slog.JSONHandler\<close>

text \<open>
  The state of the inner handler that \<open>NewECSHandler\<close> builds: the writer it was given,
  its minimum level, and the attributes and groups bound to it by \<open>WithAttrs\<close> and
  \<open>WithGroup\<close>.
\<close>

datatype writer = OsStdout | OtherWriter nat

record jsonHandler =
  hWriter :: writer
  hLevel :: int
  hAttrs :: "attr list"
  hGroups :: "string list"

definition NewJSONHandler :: "writer \<Rightarrow> int \<Rightarrow> jsonHandler" where
  "NewJSONHandler w lvl = \<lparr>hWriter = w, hLevel = lvl, hAttrs = [], hGroups = []\<rparr>"

definition JSONHandler_Enabled :: "jsonHandler \<Rightarrow> int \<Rightarrow> bool" where
  "JSONHandler_Enabled j l = (hLevel j \<le> l)"

definition JSONHandler_WithAttrs :: "jsonHandler \<Rightarrow> attr list \<Rightarrow> jsonHandler" where
  "JSONHandler_WithAttrs j as = j\<lparr>hAttrs := hAttrs j @ as\<rparr>"

definition JSONHandler_WithGroup :: "jsonHandler \<Rightarrow> string \<Rightarrow> jsonHandler" where
  "JSONHandler_WithGroup j name = (if name = [] then j else j\<lparr>hGroups := hGroups j @ [name]\<rparr>)"

section \<open>logger/ecs.go\<close>

definition ECSVersion :: string where "ECSVersion = ''8.11.0''"
definition ServiceName :: string where "ServiceName = ''orchestrated-ping''"
definition ServiceVersion :: string where "ServiceVersion = ''1.0.0''"

record ECSHandler =
  handler :: jsonHandler
  serviceName :: string
  version :: string

definition NewECSHandler :: "writer \<Rightarrow> string \<Rightarrow> string \<Rightarrow> ECSHandler" where
  "NewECSHandler w name ver =
     \<lparr>handler = NewJSONHandler w LevelInfo, serviceName = name, version = ver\<rparr>"

definition Enabled :: "ECSHandler \<Rightarrow> int \<Rightarrow> bool" where
  "Enabled h level = JSONHandler_Enabled (handler h) level"

definition Nanoseconds :: "int \<Rightarrow> int" where
  "Nanoseconds d = d"

text \<open>
  \<open>mapAttribute\<close> assigns into the Go map \<open>attrs\<close>; the model returns the updated map.
  The \<open>switch\<close> takes the first matching case.
\<close>

definition mapAttribute :: "(string \<rightharpoonup> val) \<Rightarrow> string \<Rightarrow> val \<Rightarrow> (string \<rightharpoonup> val)" where
  "mapAttribute attrs key v =
     (if key = ''method'' then attrs(''http.request.method'' \<mapsto> v)
      else if key = ''path'' then attrs(''url.path'' \<mapsto> v)
      else if key = ''status'' then attrs(''http.response.status_code'' \<mapsto> v)
      else if key = ''bytes'' then attrs(''http.response.body.bytes'' \<mapsto> v)
      else if key = ''duration'' then
        (case v of
           VDuration d \<Rightarrow> attrs(''event.duration'' \<mapsto> VInt64 (Nanoseconds d))
         | _ \<Rightarrow> attrs(''event.duration'' \<mapsto> v))
      else if key = ''remote_addr'' then attrs(''client.address'' \<mapsto> v)
      else if key = ''request_id'' then attrs(''trace.id'' \<mapsto> v)
      else if key = ''error'' then attrs(''error.message'' \<mapsto> v)
      else if key = ''uptime'' then attrs(''event.uptime'' \<mapsto> v)
      else if key = ''port'' then attrs(''server.port'' \<mapsto> v)
      else if key = ''environment'' then attrs(''service.environment'' \<mapsto> v)
      else attrs(key \<mapsto> v))"

text \<open>
  Standard output: the chunks written so far, one per successful \<open>Write\<close> call, and
  whether writes fail (a closed descriptor, a broken pipe).
\<close>

record stdout =
  written :: "string list"
  failing :: bool

datatype writeError = WriteFailed

definition Stdout_Write :: "stdout \<Rightarrow> string \<Rightarrow> writeError option \<times> stdout" where
  "Stdout_Write out b =
     (if failing out then (Some WriteFailed, out)
      else (None, out\<lparr>written := written out @ [b]\<rparr>))"

text \<open>
  Lines 35 to 48 of \<open>Handle\<close>: the record built before serialisation. \<open>fmtTime\<close> stands
  for \<open>t.UTC().Format(time.RFC3339Nano)\<close>.
\<close>

definition Handle_attrs :: "('t \<Rightarrow> string) \<Rightarrow> ECSHandler \<Rightarrow> 't Record \<Rightarrow> (string \<rightharpoonup> val)" where
  "Handle_attrs fmtTime h r =
     fold (\<lambda>a attrs. mapAttribute attrs (fst a) (snd a)) (Attrs r)
       (Map.empty
          (''@timestamp'' \<mapsto> VString (fmtTime (Time r)),
           ''ecs.version'' \<mapsto> VString ECSVersion,
           ''message'' \<mapsto> VString (Message r),
           ''log.level'' \<mapsto> VString (Level_String (Level r)),
           ''service.name'' \<mapsto> VString (serviceName h),
           ''service.version'' \<mapsto> VString (version h)))"

text \<open>
  \<open>Handle\<close>: \<open>marshal\<close> stands for \<open>json.Marshal\<close> on the record; its error is
  returned, the results of the two writes to \<open>os.Stdout\<close> are dropped, as in the source.
\<close>

definition Handle ::
  "('t \<Rightarrow> string) \<Rightarrow> ((string \<rightharpoonup> val) \<Rightarrow> 'e + string) \<Rightarrow> ECSHandler \<Rightarrow> 't Record \<Rightarrow> stdout
     \<Rightarrow> 'e option \<times> stdout" where
  "Handle fmtTime marshal h r out =
     (case marshal (Handle_attrs fmtTime h r) of
        Inl err \<Rightarrow> (Some err, out)
      | Inr b \<Rightarrow>
          (let out1 = snd (Stdout_Write out b);
               out2 = snd (Stdout_Write out1 [CHR 0x0A])
           in (None, out2)))"

definition WithAttrs :: "ECSHandler \<Rightarrow> attr list \<Rightarrow> ECSHandler" where
  "WithAttrs h as =
     \<lparr>handler = JSONHandler_WithAttrs (handler h) as,
      serviceName = serviceName h, version = version h\<rparr>"

definition WithGroup :: "ECSHandler \<Rightarrow> string \<Rightarrow> ECSHandler" where
  "WithGroup h name =
     \<lparr>handler = JSONHandler_WithGroup (handler h) name,
      serviceName = serviceName h, version = version h\<rparr>"

text \<open>
  \<open>slog.Logger\<close> asks \<open>Enabled\<close> before it builds a record and calls \<open>Handle\<close>, and
  drops the error \<open>Handle\<close> returns.
\<close>

definition Logger_log ::
  "('t \<Rightarrow> string) \<Rightarrow> ((string \<rightharpoonup> val) \<Rightarrow> 'e + string) \<Rightarrow> ECSHandler \<Rightarrow> 't Record \<Rightarrow> stdout
     \<Rightarrow> stdout" where
  "Logger_log fmtTime marshal h r out =
     (if Enabled h (Level r) then snd (Handle fmtTime marshal h r out) else out)"

subsection \<open>The attribute table of the specification\<close>

text \<open>
  The lookup table as the specification lists it, and the mapping it documents: the
  canonical name for a key of the table, the key itself otherwise.
\<close>

definition AttributeMapper_table :: "(string \<times> string) list" where
  "AttributeMapper_table =
     [(''method'', ''http.request.method''),
      (''path'', ''url.path''),
      (''status'', ''http.response.status_code''),
      (''bytes'', ''http.response.body.bytes''),
      (''duration'', ''event.duration''),
      (''remote_addr'', ''client.address''),
      (''request_id'', ''trace.id''),
      (''error'', ''error.message''),
      (''uptime'', ''event.uptime''),
      (''port'', ''server.port''),
      (''environment'', ''service.environment'')]"

definition AttributeMapper_map :: "string \<Rightarrow> string" where
  "AttributeMapper_map key =
     (case map_of AttributeMapper_table key of Some c \<Rightarrow> c | None \<Rightarrow> key)"

section \<open>metrics/metrics.go and middleware/metrics.go\<close>

text \<open>
  The two metric vectors of the metrics package, both declared with the label names
  \<open>method\<close>, \<open>endpoint\<close>, \<open>status\<close>: a series is addressed by its three label
  values. The histogram keeps the values observed, the counter a count. The observed
  values are float64 numbers in the source; their type is left open (\<open>'f\<close>).
\<close>

type_synonym labels = "string \<times> string \<times> string"

record 'f registry =
  HttpDuration :: "labels \<Rightarrow> 'f list"
  HttpRequestsTotal :: "labels \<Rightarrow> nat"

definition Observe :: "labels \<Rightarrow> 'f \<Rightarrow> 'f registry \<Rightarrow> 'f registry" where
  "Observe ls x reg = reg\<lparr>HttpDuration := (HttpDuration reg)(ls := HttpDuration reg ls @ [x])\<rparr>"

definition Inc :: "labels \<Rightarrow> 'f registry \<Rightarrow> 'f registry" where
  "Inc ls reg = reg\<lparr>HttpRequestsTotal := (HttpRequestsTotal reg)(ls := Suc (HttpRequestsTotal reg ls))\<rparr>"

text \<open>
  The \<open>http.ResponseWriter\<close> of net/http that the proxy wraps: the first
  \<open>WriteHeader\<close> fixes the status sent to the client, and a \<open>Write\<close> before any
  \<open>WriteHeader\<close> sends 200.
\<close>

record httpWriter =
  wroteHeader :: bool
  status :: int
  body :: string

definition StatusOK :: int where "StatusOK = 200"

definition http_WriteHeader :: "int \<Rightarrow> httpWriter \<Rightarrow> httpWriter" where
  "http_WriteHeader code w = (if wroteHeader w then w else w\<lparr>wroteHeader := True, status := code\<rparr>)"

definition http_Write :: "string \<Rightarrow> httpWriter \<Rightarrow> httpWriter" where
  "http_Write b w =
     (let w1 = (if wroteHeader w then w else http_WriteHeader StatusOK w)
      in w1\<lparr>body := body w1 @ b\<rparr>)"

text \<open>
  The proxy. \<open>WriteHeader\<close> is its own method; \<open>Write\<close> is promoted from the embedded
  \<open>http.ResponseWriter\<close> and goes to the wrapped writer directly.
\<close>

record responseWriter =
  ResponseWriter :: httpWriter
  statusCode :: int

definition WriteHeader :: "responseWriter \<Rightarrow> int \<Rightarrow> responseWriter" where
  "WriteHeader rw code =
     rw\<lparr>statusCode := code, ResponseWriter := http_WriteHeader code (ResponseWriter rw)\<rparr>"

definition Write :: "responseWriter \<Rightarrow> string \<Rightarrow> responseWriter" where
  "Write rw b = rw\<lparr>ResponseWriter := http_Write b (ResponseWriter rw)\<rparr>"

text \<open>
  What a handler does with the writer it is given is the sequence of its calls on it.
  A run of \<open>next.ServeHTTP(ww, r)\<close> is that sequence, whether the call returned or
  panicked, the route pattern the router left in the request's route context, and the
  time that passed, in nanoseconds.
\<close>

datatype call = CallWriteHeader int | CallWrite string

fun doCall :: "call \<Rightarrow> responseWriter \<Rightarrow> responseWriter" where
  "doCall (CallWriteHeader code) rw = WriteHeader rw code"
| "doCall (CallWrite b) rw = Write rw b"

datatype outcome = Returned | Panicked

record request =
  Method :: string
  URLPath :: string

record served =
  calls :: "call list"
  outcome :: outcome
  RoutePattern :: string
  elapsed :: int

text \<open>Lines 16 and 18 of \<open>Metrics\<close>: the proxy after the handler has run on it.\<close>

definition Metrics_serve :: "(request \<Rightarrow> served) \<Rightarrow> httpWriter \<Rightarrow> request \<Rightarrow> responseWriter" where
  "Metrics_serve next w r =
     fold doCall (calls (next r)) \<lparr>ResponseWriter = w, statusCode = StatusOK\<rparr>"

text \<open>
  \<open>Metrics\<close>: a panic of the handler leaves the function before the metrics are
  recorded (they are not deferred). \<open>seconds\<close> stands for \<open>time.Duration.Seconds\<close>,
  the conversion of the elapsed time to a float64.
\<close>

definition Metrics ::
  "(int \<Rightarrow> 'f) \<Rightarrow> (request \<Rightarrow> served) \<Rightarrow> httpWriter \<Rightarrow> request \<Rightarrow> 'f registry
     \<Rightarrow> outcome \<times> httpWriter \<times> 'f registry" where
  "Metrics seconds next w r reg =
     (let ww = Metrics_serve next w r in
      case outcome (next r) of
        Panicked \<Rightarrow> (Panicked, ResponseWriter ww, reg)
      | Returned \<Rightarrow>
          (let duration = seconds (elapsed (next r));
               endpoint = RoutePattern (next r);
               statusCode = Itoa (statusCode ww);
               reg1 = Observe (Method r, endpoint, statusCode) duration reg;
               reg2 = Inc (Method r, endpoint, statusCode) reg1
           in (Returned, ResponseWriter ww, reg2)))"

section \<open>config/config.go\<close>

text \<open>The process environment; \<open>os.Getenv\<close> gives the empty string for an unset variable.\<close>

type_synonym env = "string \<rightharpoonup> string"

definition Getenv :: "env \<Rightarrow> string \<Rightarrow> string" where
  "Getenv e key = (case e key of None \<Rightarrow> [] | Some v \<Rightarrow> v)"

text \<open>
  \<open>strconv.Atoi\<close>: an optional sign, then one or more decimal digits, and a value
  that fits an int64.
\<close>

definition isDigit :: "char \<Rightarrow> bool" where
  "isDigit c = (48 \<le> (of_char c :: nat) \<and> (of_char c :: nat) \<le> 57)"

fun digitsValue :: "string \<Rightarrow> nat \<Rightarrow> nat option" where
  "digitsValue [] n = Some n"
| "digitsValue (c # cs) n =
     (if isDigit c then digitsValue cs (n * 10 + (of_char c - 48)) else None)"

definition Atoi :: "string \<Rightarrow> int option" where
  "Atoi s =
     (let neg = (s \<noteq> [] \<and> hd s = CHR ''-'');
          ds = (if s \<noteq> [] \<and> (hd s = CHR ''-'' \<or> hd s = CHR ''+'') then tl s else s)
      in if ds = [] then None
         else case digitsValue ds 0 of
                None \<Rightarrow> None
              | Some n \<Rightarrow>
                  (let i = (if neg then - int n else int n)
                   in if - (2 ^ 63) \<le> i \<and> i < 2 ^ 63 then Some i else None))"

text \<open>
  \<open>time.ParseDuration\<close> is a parameter of the model (\<open>parseDuration\<close> below). The closed
  examples instantiate it with its single-term fragment without sign or fraction: digits
  followed by one unit.
\<close>

definition unitNanos :: "string \<Rightarrow> int option" where
  "unitNanos u =
     (if u = ''ns'' then Some 1
      else if u = ''us'' then Some 1000
      else if u = ''ms'' then Some 1000000
      else if u = ''s'' then Some 1000000000
      else if u = ''m'' then Some 60000000000
      else if u = ''h'' then Some 3600000000000
      else None)"

definition ParseDuration_plain :: "string \<Rightarrow> int option" where
  "ParseDuration_plain s =
     (if s = ''0'' then Some 0
      else if takeWhile isDigit s = [] then None
      else case (digitsValue (takeWhile isDigit s) 0, unitNanos (dropWhile isDigit s)) of
             (Some n, Some k) \<Rightarrow> (if int n * k < 2 ^ 63 then Some (int n * k) else None)
           | _ \<Rightarrow> None)"

definition Second :: int where "Second = 1000000000"

record ServerConfig =
  Port :: string
  ReadTimeout :: int
  WriteTimeout :: int
  ShutdownTimeout :: int

record ServiceConfig =
  Name :: string
  Version :: string

record Config =
  Server :: ServerConfig
  Service :: ServiceConfig
  Environment :: string

datatype configError =
    PortEmpty
  | InvalidPort string
  | NameEmpty
  | VersionEmpty
  | InvalidConfiguration configError

definition getEnv :: "env \<Rightarrow> string \<Rightarrow> string \<Rightarrow> string" where
  "getEnv e key defaultValue = (let v = Getenv e key in if v \<noteq> [] then v else defaultValue)"

definition getEnvDuration :: "(string \<Rightarrow> int option) \<Rightarrow> env \<Rightarrow> string \<Rightarrow> int \<Rightarrow> int" where
  "getEnvDuration parseDuration e key defaultValue =
     (let v = Getenv e key in
      if v \<noteq> [] then (case parseDuration v of Some d \<Rightarrow> d | None \<Rightarrow> defaultValue)
      else defaultValue)"

definition Validate :: "Config \<Rightarrow> configError option" where
  "Validate c =
     (if Port (Server c) = [] then Some PortEmpty
      else if Atoi (Port (Server c)) = None then Some (InvalidPort (Port (Server c)))
      else if Name (Service c) = [] then Some NameEmpty
      else if Version (Service c) = [] then Some VersionEmpty
      else None)"

definition Load :: "(string \<Rightarrow> int option) \<Rightarrow> env \<Rightarrow> configError + Config" where
  "Load parseDuration e =
     (let cfg =
        \<lparr>Server =
           \<lparr>Port = getEnv e ''PORT'' ''8080'',
            ReadTimeout = getEnvDuration parseDuration e ''READ_TIMEOUT'' (15 * Second),
            WriteTimeout = getEnvDuration parseDuration e ''WRITE_TIMEOUT'' (15 * Second),
            ShutdownTimeout = getEnvDuration parseDuration e ''SHUTDOWN_TIMEOUT'' (30 * Second)\<rparr>,
         Service = \<lparr>Name = ServiceName, Version = ServiceVersion\<rparr>,
         Environment = getEnv e ''ENVIRONMENT'' ''development''\<rparr>
      in case Validate cfg of
           Some err \<Rightarrow> Inl (InvalidConfiguration err)
         | None \<Rightarrow> Inr cfg)"

text \<open>
  The start of \<open>main\<close>: a failed \<open>Load\<close> ends the process with status 1; otherwise the
  logger, the handlers and the server are built from the configuration.
\<close>

datatype startup = OsExit int | ServerNew Config

definition main_startup :: "(string \<Rightarrow> int option) \<Rightarrow> env \<Rightarrow> startup" where
  "main_startup parseDuration e =
     (case Load parseDuration e of Inl err \<Rightarrow> OsExit 1 | Inr cfg \<Rightarrow> ServerNew cfg)"

section \<open>Notions used to state the properties\<close>

text \<open>
  The value \<open>mapAttribute\<close> stores for a key: a duration under the key \<open>duration\<close>
  becomes its count of nanoseconds, any other value is stored as it is.
\<close>

definition storedValue :: "string \<Rightarrow> val \<Rightarrow> val" where
  "storedValue key v =
     (if key = ''duration'' then (case v of VDuration d \<Rightarrow> VInt64 d | _ \<Rightarrow> v) else v)"

text \<open>The six fields \<open>Handle\<close> sets before it visits the attributes, and their values.\<close>

definition fixedFields :: "string list" where
  "fixedFields =
     [''@timestamp'', ''ecs.version'', ''message'', ''log.level'', ''service.name'',
      ''service.version'']"

definition fixedValue :: "('t \<Rightarrow> string) \<Rightarrow> ECSHandler \<Rightarrow> 't Record \<Rightarrow> string \<Rightarrow> val option" where
  "fixedValue fmtTime h r k =
     (if k = ''@timestamp'' then Some (VString (fmtTime (Time r)))
      else if k = ''ecs.version'' then Some (VString ECSVersion)
      else if k = ''message'' then Some (VString (Message r))
      else if k = ''log.level'' then Some (VString (Level_String (Level r)))
      else if k = ''service.name'' then Some (VString (serviceName h))
      else if k = ''service.version'' then Some (VString (version h))
      else None)"

text \<open>The status codes a handler passes to \<open>WriteHeader\<close>, in the order of its calls.\<close>

fun headerCodes :: "call list \<Rightarrow> int list" where
  "headerCodes [] = []"
| "headerCodes (CallWriteHeader code # cs) = code # headerCodes cs"
| "headerCodes (CallWrite b # cs) = headerCodes cs"

section \<open>Theorems\<close>

lemma AttributeMapper_map_simps:
  "AttributeMapper_map ''method'' = ''http.request.method''"
  "AttributeMapper_map ''path'' = ''url.path''"
  "AttributeMapper_map ''status'' = ''http.response.status_code''"
  "AttributeMapper_map ''bytes'' = ''http.response.body.bytes''"
  "AttributeMapper_map ''duration'' = ''event.duration''"
  "AttributeMapper_map ''remote_addr'' = ''client.address''"
  "AttributeMapper_map ''request_id'' = ''trace.id''"
  "AttributeMapper_map ''error'' = ''error.message''"
  "AttributeMapper_map ''uptime'' = ''event.uptime''"
  "AttributeMapper_map ''port'' = ''server.port''"
  "AttributeMapper_map ''environment'' = ''service.environment''"
  by (simp_all add: AttributeMapper_map_def AttributeMapper_table_def)

lemma AttributeMapper_map_other:
  "key \<notin> fst ` set AttributeMapper_table \<Longrightarrow> AttributeMapper_map key = key"
  by (simp add: AttributeMapper_map_def AttributeMapper_table_def)

subsection \<open>What \<open>mapAttribute\<close> and \<open>Handle\<close> store\<close>

lemma mapAttribute_upd:
  "mapAttribute attrs key v = attrs(AttributeMapper_map key \<mapsto> storedValue key v)"
  by (cases v)
    (simp_all add: mapAttribute_def AttributeMapper_map_def AttributeMapper_table_def
       Nanoseconds_def storedValue_def)

lemma find_append_split:
  "find P (xs @ ys) = (case find P xs of None \<Rightarrow> find P ys | Some x \<Rightarrow> Some x)"
  by (induction xs) simp_all

lemma fold_mapAttribute_lookup:
  "fold (\<lambda>a attrs. mapAttribute attrs (fst a) (snd a)) as m k =
     (case find (\<lambda>a. AttributeMapper_map (fst a) = k) (rev as) of
        Some a \<Rightarrow> Some (storedValue (fst a) (snd a))
      | None \<Rightarrow> m k)"
proof (induction as rule: rev_induct)
  case Nil
  show ?case by simp
next
  case (snoc a as)
  show ?case using snoc.IH by (simp add: mapAttribute_upd)
qed

lemma Handle_attrs_lookup:
  "Handle_attrs fmtTime h r k =
     (case find (\<lambda>a. AttributeMapper_map (fst a) = k) (rev (Attrs r)) of
        Some a \<Rightarrow> Some (storedValue (fst a) (snd a))
      | None \<Rightarrow> fixedValue fmtTime h r k)"
  unfolding Handle_attrs_def fold_mapAttribute_lookup
  by (simp add: fixedValue_def split: option.splits)

lemma AttributeMapper_map_fixed_each:
  "AttributeMapper_map key = ''@timestamp'' \<longleftrightarrow> key = ''@timestamp''"
  "AttributeMapper_map key = ''ecs.version'' \<longleftrightarrow> key = ''ecs.version''"
  "AttributeMapper_map key = ''message'' \<longleftrightarrow> key = ''message''"
  "AttributeMapper_map key = ''log.level'' \<longleftrightarrow> key = ''log.level''"
  "AttributeMapper_map key = ''service.name'' \<longleftrightarrow> key = ''service.name''"
  "AttributeMapper_map key = ''service.version'' \<longleftrightarrow> key = ''service.version''"
  by (simp_all add: AttributeMapper_map_def AttributeMapper_table_def)

lemma fixedFields_cases:
  assumes "k \<in> set fixedFields"
  shows "k = ''@timestamp'' \<or> k = ''ecs.version'' \<or> k = ''message'' \<or> k = ''log.level''
      \<or> k = ''service.name'' \<or> k = ''service.version''"
  using assms unfolding fixedFields_def
  by (simp only: set_simps insert_iff empty_iff simp_thms)

lemma AttributeMapper_map_fixed:
  assumes "k \<in> set fixedFields"
  shows "AttributeMapper_map key = k \<longleftrightarrow> key = k"
  using fixedFields_cases [OF assms]
  by (elim disjE) (simp_all only: AttributeMapper_map_fixed_each)

lemma fixedValue_Some:
  assumes "k \<in> set fixedFields"
  shows "fixedValue fmtTime h r k \<noteq> None"
  using fixedFields_cases [OF assms]
  by (elim disjE) (simp_all add: fixedValue_def)

lemma fixed_not_duration:
  assumes "k \<in> set fixedFields"
  shows "k \<noteq> ''duration''"
  using fixedFields_cases [OF assms]
  by (elim disjE) simp_all

lemma find_mapped_fixed_None:
  assumes "k \<in> set fixedFields" and "k \<notin> fst ` set as"
  shows "find (\<lambda>a. AttributeMapper_map (fst a) = k) as = None"
proof -
  have "\<not> (\<exists>a. a \<in> set as \<and> fst a = k)"
    using assms(2) by (metis imageI)
  then show ?thesis
    by (simp add: find_None_iff AttributeMapper_map_fixed [OF assms(1)])
qed

lemma Handle_attrs_untouched:
  assumes "k \<in> set fixedFields" and "k \<notin> fst ` set (Attrs r)"
  shows "Handle_attrs fmtTime h r k = fixedValue fmtTime h r k"
proof -
  have "k \<notin> fst ` set (rev (Attrs r))" using assms(2) by simp
  then have "find (\<lambda>a. AttributeMapper_map (fst a) = k) (rev (Attrs r)) = None"
    by (rule find_mapped_fixed_None [OF assms(1)])
  then show ?thesis by (simp add: Handle_attrs_lookup)
qed

lemma Handle_attrs_present:
  assumes "k \<in> set fixedFields"
  shows "Handle_attrs fmtTime h r k \<noteq> None"
  using fixedValue_Some [OF assms, of fmtTime h r]
  by (simp add: Handle_attrs_lookup split: option.splits)

text \<open>
  Claim C1. For every key of the attribute table, \<open>mapAttribute\<close> stores the value under
  the documented canonical name; for every other key it stores the value under the key
  itself. The model is a total function: there is no error result and no state besides
  the map it updates.
\<close>

theorem mapAttribute_follows_table:
  "mapAttribute attrs key v = attrs(AttributeMapper_map key \<mapsto> storedValue key v)
   \<and> (\<forall>(k, c) \<in> set AttributeMapper_table. AttributeMapper_map k = c)
   \<and> (key \<notin> fst ` set AttributeMapper_table \<longrightarrow>
        AttributeMapper_map key = key \<and> mapAttribute attrs key v = attrs(key \<mapsto> v))"
proof (intro conjI impI)
  show "mapAttribute attrs key v = attrs(AttributeMapper_map key \<mapsto> storedValue key v)"
    by (rule mapAttribute_upd)
  show "\<forall>(k, c) \<in> set AttributeMapper_table. AttributeMapper_map k = c"
    by (simp add: AttributeMapper_table_def AttributeMapper_map_simps)
next
  assume out: "key \<notin> fst ` set AttributeMapper_table"
  then show "AttributeMapper_map key = key"
    by (rule AttributeMapper_map_other)
  from out have "key \<noteq> ''duration''"
    by (auto simp: AttributeMapper_table_def)
  then show "mapAttribute attrs key v = attrs(key \<mapsto> v)"
    using AttributeMapper_map_other [OF out] by (simp add: mapAttribute_upd storedValue_def)
qed

theorem mapAttribute_follows_table_witness:
  "mapAttribute Map.empty ''status'' (VInt64 200) = [''http.response.status_code'' \<mapsto> VInt64 200]
   \<and> ''x-custom'' \<notin> fst ` set AttributeMapper_table
   \<and> mapAttribute Map.empty ''x-custom'' (VBool True) = [''x-custom'' \<mapsto> VBool True]"
proof -
  have out: "''x-custom'' \<notin> fst ` set AttributeMapper_table"
    by (simp add: AttributeMapper_table_def)
  have a: "mapAttribute Map.empty ''status'' (VInt64 200)
      = [AttributeMapper_map ''status'' \<mapsto> storedValue ''status'' (VInt64 200)]"
    using mapAttribute_follows_table [of Map.empty "''status''" "VInt64 200"] by blast
  have b: "mapAttribute Map.empty ''x-custom'' (VBool True) = [''x-custom'' \<mapsto> VBool True]"
    using mapAttribute_follows_table [of Map.empty "''x-custom''" "VBool True"] out by blast
  show ?thesis
    using a b out by (simp add: AttributeMapper_map_simps storedValue_def)
qed

text \<open>
  Claim C7. Under the key \<open>duration\<close>, a duration value is stored under
  \<open>event.duration\<close> as its count of nanoseconds, and a value of any other type is stored
  there unchanged; so it reaches the record \<open>Handle\<close> builds.
\<close>

theorem mapAttribute_duration:
  "mapAttribute attrs ''duration'' (VDuration d) = attrs(''event.duration'' \<mapsto> VInt64 d)
   \<and> ((\<forall>d'. v \<noteq> VDuration d') \<longrightarrow>
        mapAttribute attrs ''duration'' v = attrs(''event.duration'' \<mapsto> v))
   \<and> Handle_attrs fmtTime h (r\<lparr>Attrs := as @ [(''duration'', v)]\<rparr>) ''event.duration''
        = Some (case v of VDuration d' \<Rightarrow> VInt64 d' | _ \<Rightarrow> v)"
proof (intro conjI impI)
  show "mapAttribute attrs ''duration'' (VDuration d) = attrs(''event.duration'' \<mapsto> VInt64 d)"
    by (simp add: mapAttribute_def Nanoseconds_def)
  show "Handle_attrs fmtTime h (r\<lparr>Attrs := as @ [(''duration'', v)]\<rparr>) ''event.duration''
        = Some (case v of VDuration d' \<Rightarrow> VInt64 d' | _ \<Rightarrow> v)"
    by (simp add: Handle_attrs_lookup AttributeMapper_map_simps storedValue_def)
next
  assume "\<forall>d'. v \<noteq> VDuration d'"
  then show "mapAttribute attrs ''duration'' v = attrs(''event.duration'' \<mapsto> v)"
    by (cases v) (simp_all add: mapAttribute_def)
qed

theorem mapAttribute_duration_witness:
  "(\<forall>d'. VString ''12ms'' \<noteq> VDuration d')
   \<and> mapAttribute Map.empty ''duration'' (VDuration 1500000) = [''event.duration'' \<mapsto> VInt64 1500000]
   \<and> mapAttribute Map.empty ''duration'' (VString ''12ms'') = [''event.duration'' \<mapsto> VString ''12ms'']"
proof -
  have ne: "\<forall>d'. VString ''12ms'' \<noteq> VDuration d'" by simp
  show ?thesis
    using ne mapAttribute_duration [of Map.empty 1500000 "VString ''12ms''"] by blast
qed

text \<open>
  Claim C9. The attributes are inserted after the fixed fields. When an attribute of the
  event is named like one of the six fixed fields, the record holds the value of the last
  such attribute in place of the event's own timestamp, message, level or service identity.
\<close>

theorem Handle_attrs_attribute_replaces_fixed:
  assumes "k \<in> set fixedFields"
    and "Attrs r = as @ (k, v) # bs"
    and "k \<notin> fst ` set bs"
  shows "Handle_attrs fmtTime h r k = Some v"
proof -
  let ?P = "\<lambda>a. AttributeMapper_map (fst a) = k"
  have "k \<notin> fst ` set (rev bs)" using assms(3) by simp
  then have none: "find ?P (rev bs) = None"
    by (rule find_mapped_fixed_None [OF assms(1)])
  have hit: "?P (k, v)"
    by (simp add: AttributeMapper_map_fixed [OF assms(1)])
  have "rev (Attrs r) = rev bs @ (k, v) # rev as"
    by (simp add: assms(2))
  then have "find ?P (rev (Attrs r)) = Some (k, v)"
    using none hit by (simp add: find_append_split)
  then show ?thesis
    using fixed_not_duration [OF assms(1)]
    by (simp add: Handle_attrs_lookup storedValue_def)
qed


theorem Handle_attrs_attribute_replaces_fixed_witness:
  "''message'' \<in> set fixedFields
   \<and> ''message'' \<notin> fst ` set ([] :: attr list)
   \<and> Handle_attrs (\<lambda>t. ''2024-05-01T10:00:00Z'') (NewECSHandler OsStdout ServiceName ServiceVersion)
        \<lparr>Time = (), Message = ''request completed'', Level = LevelInfo,
         Attrs = [(''status'', VInt64 200), (''message'', VString ''shadow'')]\<rparr> ''message''
       = Some (VString ''shadow'')"
proof -
  have f: "''message'' \<in> set fixedFields"
    by (simp add: fixedFields_def)
  have n: "''message'' \<notin> fst ` set ([] :: attr list)"
    by simp
  have a: "Attrs \<lparr>Time = (), Message = ''request completed'', Level = LevelInfo,
         Attrs = [(''status'', VInt64 200), (''message'', VString ''shadow'')]\<rparr>
       = [(''status'', VInt64 200)] @ (''message'', VString ''shadow'') # []"
    by simp
  show ?thesis
    using f n Handle_attrs_attribute_replaces_fixed [OF f a n] by simp
qed

subsection \<open>Serialising and writing\<close>

lemma Handle_WithAttrs:
  "Handle fmtTime marshal (WithAttrs h as) r out = Handle fmtTime marshal h r out"
  by (simp add: Handle_def WithAttrs_def Handle_attrs_def)

lemma Handle_WithGroup:
  "Handle fmtTime marshal (WithGroup h name) r out = Handle fmtTime marshal h r out"
  by (simp add: Handle_def WithGroup_def Handle_attrs_def)

lemma WithAttrs_keeps_identity:
  "serviceName (WithAttrs h as) = serviceName h \<and> version (WithAttrs h as) = version h
   \<and> hWriter (handler (WithAttrs h as)) = hWriter (handler h)
   \<and> hAttrs (handler (WithAttrs h as)) = hAttrs (handler h) @ as"
  by (simp add: WithAttrs_def JSONHandler_WithAttrs_def)

lemma WithGroup_keeps_identity:
  "serviceName (WithGroup h name) = serviceName h \<and> version (WithGroup h name) = version h
   \<and> hWriter (handler (WithGroup h name)) = hWriter (handler h)"
  by (simp add: WithGroup_def JSONHandler_WithGroup_def)

lemma Handle_marshal_error:
  "marshal (Handle_attrs fmtTime h r) = Inl err \<Longrightarrow>
   Handle fmtTime marshal h r out = (Some err, out)"
  by (simp add: Handle_def)

lemma Handle_marshal_ok:
  "marshal (Handle_attrs fmtTime h r) = Inr b \<Longrightarrow>
   Handle fmtTime marshal h r out =
     (None, if failing out then out else out\<lparr>written := written out @ [b, [CHR 0x0A]]\<rparr>)"
  by (simp add: Handle_def Stdout_Write_def Let_def)

lemma fixedFields_mem:
  "''@timestamp'' \<in> set fixedFields" "''ecs.version'' \<in> set fixedFields"
  "''message'' \<in> set fixedFields" "''log.level'' \<in> set fixedFields"
  "''service.name'' \<in> set fixedFields" "''service.version'' \<in> set fixedFields"
  by (simp_all add: fixedFields_def)

text \<open>
  Claim C6, amended. The record \<open>Handle\<close> builds always has the six fields
  \<open>@timestamp\<close>, \<open>ecs.version\<close>, \<open>message\<close>, \<open>log.level\<close>, \<open>service.name\<close> and
  \<open>service.version\<close>. Each of them holds the formatted event time, the schema version, the
  message, the level as a string and the service identity, provided that no attribute of
  the event carries the name of that field. When the serialiser returns a line and standard
  output accepts writes, \<open>Handle\<close> writes that line and then a newline, and returns no error.
\<close>

theorem Handle_fixed_fields:
  "(\<forall>k \<in> set fixedFields. Handle_attrs fmtTime h r k \<noteq> None)
   \<and> (''@timestamp'' \<notin> fst ` set (Attrs r) \<longrightarrow>
        Handle_attrs fmtTime h r ''@timestamp'' = Some (VString (fmtTime (Time r))))
   \<and> (''ecs.version'' \<notin> fst ` set (Attrs r) \<longrightarrow>
        Handle_attrs fmtTime h r ''ecs.version'' = Some (VString ECSVersion))
   \<and> (''message'' \<notin> fst ` set (Attrs r) \<longrightarrow>
        Handle_attrs fmtTime h r ''message'' = Some (VString (Message r)))
   \<and> (''log.level'' \<notin> fst ` set (Attrs r) \<longrightarrow>
        Handle_attrs fmtTime h r ''log.level'' = Some (VString (Level_String (Level r))))
   \<and> (''service.name'' \<notin> fst ` set (Attrs r) \<longrightarrow>
        Handle_attrs fmtTime h r ''service.name'' = Some (VString (serviceName h)))
   \<and> (''service.version'' \<notin> fst ` set (Attrs r) \<longrightarrow>
        Handle_attrs fmtTime h r ''service.version'' = Some (VString (version h)))
   \<and> (marshal (Handle_attrs fmtTime h r) = Inr b \<and> \<not> failing out \<longrightarrow>
        Handle fmtTime marshal h r out = (None, out\<lparr>written := written out @ [b, [CHR 0x0A]]\<rparr>))"
proof (intro conjI impI ballI)
  fix k assume "k \<in> set fixedFields"
  then show "Handle_attrs fmtTime h r k \<noteq> None" by (rule Handle_attrs_present)
next
  assume "''@timestamp'' \<notin> fst ` set (Attrs r)"
  then show "Handle_attrs fmtTime h r ''@timestamp'' = Some (VString (fmtTime (Time r)))"
    using Handle_attrs_untouched [OF fixedFields_mem(1)] by (simp add: fixedValue_def)
next
  assume "''ecs.version'' \<notin> fst ` set (Attrs r)"
  then show "Handle_attrs fmtTime h r ''ecs.version'' = Some (VString ECSVersion)"
    using Handle_attrs_untouched [OF fixedFields_mem(2)] by (simp add: fixedValue_def)
next
  assume "''message'' \<notin> fst ` set (Attrs r)"
  then show "Handle_attrs fmtTime h r ''message'' = Some (VString (Message r))"
    using Handle_attrs_untouched [OF fixedFields_mem(3)] by (simp add: fixedValue_def)
next
  assume "''log.level'' \<notin> fst ` set (Attrs r)"
  then show "Handle_attrs fmtTime h r ''log.level'' = Some (VString (Level_String (Level r)))"
    using Handle_attrs_untouched [OF fixedFields_mem(4)] by (simp add: fixedValue_def)
next
  assume "''service.name'' \<notin> fst ` set (Attrs r)"
  then show "Handle_attrs fmtTime h r ''service.name'' = Some (VString (serviceName h))"
    using Handle_attrs_untouched [OF fixedFields_mem(5)] by (simp add: fixedValue_def)
next
  assume "''service.version'' \<notin> fst ` set (Attrs r)"
  then show "Handle_attrs fmtTime h r ''service.version'' = Some (VString (version h))"
    using Handle_attrs_untouched [OF fixedFields_mem(6)] by (simp add: fixedValue_def)
next
  assume "marshal (Handle_attrs fmtTime h r) = Inr b \<and> \<not> failing out"
  then show "Handle fmtTime marshal h r out = (None, out\<lparr>written := written out @ [b, [CHR 0x0A]]\<rparr>)"
    by (simp add: Handle_marshal_ok)
qed

text \<open>
  The claim as stated fails for an event with an attribute named \<open>message\<close>: the record
  does not hold the message of the event.
\<close>

theorem Handle_fixed_fields_counterexample:
  "Handle_attrs (\<lambda>t. ''2024-05-01T10:00:00Z'') (NewECSHandler OsStdout ServiceName ServiceVersion)
     \<lparr>Time = (), Message = ''request completed'', Level = LevelInfo,
      Attrs = [(''message'', VString ''shadow'')]\<rparr> ''message''
   \<noteq> Some (VString (Message \<lparr>Time = (), Message = ''request completed'', Level = LevelInfo,
      Attrs = [(''message'', VString ''shadow'')]\<rparr>))"
  by (simp add: Handle_attrs_def mapAttribute_def)

theorem Handle_fixed_fields_witness:
  \<open>''message'' \<in> set fixedFields
   \<and> ''message'' \<notin> fst ` set [(''status'', VInt64 200)]
   \<and> ''log.level'' \<notin> fst ` set [(''status'', VInt64 200)]
   \<and> \<not> failing \<lparr>written = [], failing = False\<rparr>
   \<and> Handle_attrs (\<lambda>t. ''2024-05-01T10:00:00Z'') (NewECSHandler OsStdout ServiceName ServiceVersion)
        \<lparr>Time = (), Message = ''request completed'', Level = LevelInfo,
         Attrs = [(''status'', VInt64 200)]\<rparr> ''message'' = Some (VString ''request completed'')
   \<and> Handle_attrs (\<lambda>t. ''2024-05-01T10:00:00Z'') (NewECSHandler OsStdout ServiceName ServiceVersion)
        \<lparr>Time = (), Message = ''request completed'', Level = LevelInfo,
         Attrs = [(''status'', VInt64 200)]\<rparr> ''log.level'' = Some (VString ''INFO'')
   \<and> Handle (\<lambda>t. ''2024-05-01T10:00:00Z'') (\<lambda>m. Inr ''{"@timestamp":"2024-05-01T10:00:00Z","ecs.version":"8.11.0","http.response.status_code":200,"log.level":"INFO","message":"request completed","service.name":"orchestrated-ping","service.version":"1.0.0"}'' :: unit + string)
        (NewECSHandler OsStdout ServiceName ServiceVersion)
        \<lparr>Time = (), Message = ''request completed'', Level = LevelInfo,
         Attrs = [(''status'', VInt64 200)]\<rparr>
        \<lparr>written = [], failing = False\<rparr>
      = (None, \<lparr>written = [''{"@timestamp":"2024-05-01T10:00:00Z","ecs.version":"8.11.0","http.response.status_code":200,"log.level":"INFO","message":"request completed","service.name":"orchestrated-ping","service.version":"1.0.0"}'', [CHR 0x0A]], failing = False\<rparr>)\<close>
proof -
  let ?f = \<open>\<lambda>t::unit. ''2024-05-01T10:00:00Z''\<close>
  let ?m = \<open>\<lambda>m::string \<rightharpoonup> val. Inr ''{"@timestamp":"2024-05-01T10:00:00Z","ecs.version":"8.11.0","http.response.status_code":200,"log.level":"INFO","message":"request completed","service.name":"orchestrated-ping","service.version":"1.0.0"}'' :: unit + string\<close>
  let ?h = \<open>NewECSHandler OsStdout ServiceName ServiceVersion\<close>
  let ?r = \<open>\<lparr>Time = (), Message = ''request completed'', Level = LevelInfo,
         Attrs = [(''status'', VInt64 200)]\<rparr>\<close>
  let ?out = \<open>\<lparr>written = [], failing = False\<rparr>\<close>
  note T = Handle_fixed_fields [of ?f ?h ?r ?m \<open>''{"@timestamp":"2024-05-01T10:00:00Z","ecs.version":"8.11.0","http.response.status_code":200,"log.level":"INFO","message":"request completed","service.name":"orchestrated-ping","service.version":"1.0.0"}''\<close> ?out]
  have k: \<open>''message'' \<in> set fixedFields\<close> by (simp add: fixedFields_def)
  have m: \<open>''message'' \<notin> fst ` set (Attrs ?r)\<close> by simp
  have l: \<open>''log.level'' \<notin> fst ` set (Attrs ?r)\<close> by simp
  have ok: \<open>?m (Handle_attrs ?f ?h ?r) = Inr ''{"@timestamp":"2024-05-01T10:00:00Z","ecs.version":"8.11.0","http.response.status_code":200,"log.level":"INFO","message":"request completed","service.name":"orchestrated-ping","service.version":"1.0.0"}'' \<and> \<not> failing ?out\<close> by simp
  have lvl: \<open>Level_String LevelInfo = ''INFO''\<close>
    by (simp add: Level_String_def Level_str_def LevelInfo_def LevelWarn_def)
  from T m have a: \<open>Handle_attrs ?f ?h ?r ''message'' = Some (VString (Message ?r))\<close> by blast
  from T l have b: \<open>Handle_attrs ?f ?h ?r ''log.level'' = Some (VString (Level_String (Level ?r)))\<close>
    by blast
  from T ok have c: \<open>Handle ?f ?m ?h ?r ?out = (None, ?out\<lparr>written := written ?out @ [''{"@timestamp":"2024-05-01T10:00:00Z","ecs.version":"8.11.0","http.response.status_code":200,"log.level":"INFO","message":"request completed","service.name":"orchestrated-ping","service.version":"1.0.0"}'', [CHR 0x0A]]\<rparr>)\<close>
    by blast
  show ?thesis using k m l a b c lvl by simp
qed

text \<open>
  Claim C2. \<open>WithAttrs\<close> and \<open>WithGroup\<close> build a new handler with the service identity and
  the writer of the parent, and hand the attributes or the group to the inner handler.
  \<open>Handle\<close> never reads the inner handler: at the input below, the attribute bound by
  \<open>WithAttrs\<close> is held by the derived handler and is missing from the record it produces,
  and the group bound by \<open>WithGroup\<close> leaves the record as the parent would build it.
\<close>

theorem WithAttrs_dropped_by_Handle:
  "hAttrs (handler (WithAttrs (NewECSHandler OsStdout ServiceName ServiceVersion)
       [(''request_id'', VString ''abc'')])) = [(''request_id'', VString ''abc'')]
   \<and> Handle_attrs (\<lambda>t. ''2024-05-01T10:00:00Z'')
        (WithAttrs (NewECSHandler OsStdout ServiceName ServiceVersion) [(''request_id'', VString ''abc'')])
        \<lparr>Time = (), Message = ''ping'', Level = LevelInfo, Attrs = []\<rparr> ''trace.id'' = None
   \<and> Handle_attrs (\<lambda>t. ''2024-05-01T10:00:00Z'')
        (WithAttrs (NewECSHandler OsStdout ServiceName ServiceVersion) [(''request_id'', VString ''abc'')])
        \<lparr>Time = (), Message = ''ping'', Level = LevelInfo, Attrs = []\<rparr> ''request_id'' = None
   \<and> Handle_attrs (\<lambda>t. ''2024-05-01T10:00:00Z'')
        (WithGroup (NewECSHandler OsStdout ServiceName ServiceVersion) ''http'')
        \<lparr>Time = (), Message = ''ping'', Level = LevelInfo, Attrs = [(''method'', VString ''GET'')]\<rparr>
      = Handle_attrs (\<lambda>t. ''2024-05-01T10:00:00Z'')
        (NewECSHandler OsStdout ServiceName ServiceVersion)
        \<lparr>Time = (), Message = ''ping'', Level = LevelInfo, Attrs = [(''method'', VString ''GET'')]\<rparr>"
  by (simp add: Handle_attrs_def WithAttrs_def WithGroup_def NewECSHandler_def NewJSONHandler_def
      JSONHandler_WithAttrs_def JSONHandler_WithGroup_def)

text \<open>
  Claim C3. A serialisation error is returned (lemma \<open>Handle_marshal_error\<close>), but the
  results of the two writes are dropped: with a standard output on which every write
  fails, \<open>Handle\<close> returns no error and nothing is written.
\<close>

theorem Handle_swallows_write_failure:
  \<open>fst (Stdout_Write \<lparr>written = [], failing = True\<rparr> ''{"@timestamp":"2024-05-01T10:00:00Z","ecs.version":"8.11.0","log.level":"INFO","message":"ping","service.name":"orchestrated-ping","service.version":"1.0.0"}'') = Some WriteFailed
   \<and> Handle (\<lambda>t. ''2024-05-01T10:00:00Z'') (\<lambda>m. Inr ''{"@timestamp":"2024-05-01T10:00:00Z","ecs.version":"8.11.0","log.level":"INFO","message":"ping","service.name":"orchestrated-ping","service.version":"1.0.0"}'' :: unit + string)
        (NewECSHandler OsStdout ServiceName ServiceVersion)
        \<lparr>Time = (), Message = ''ping'', Level = LevelInfo, Attrs = []\<rparr>
        \<lparr>written = [], failing = True\<rparr>
      = (None, \<lparr>written = [], failing = True\<rparr>)\<close>
  by (simp add: Handle_def Stdout_Write_def)

text \<open>
  Claim C10. \<open>NewECSHandler\<close> fixes the minimum level at INFO: \<open>Enabled\<close> holds exactly
  from INFO upwards, so it is false at DEBUG and true at INFO, WARN and ERROR. A logger
  that asks \<open>Enabled\<close> first writes nothing for an event below INFO and calls \<open>Handle\<close>
  for every other event.
\<close>

theorem Enabled_from_Info:
  "(Enabled (NewECSHandler w name ver) l \<longleftrightarrow> LevelInfo \<le> l)
   \<and> \<not> Enabled (NewECSHandler w name ver) LevelDebug
   \<and> Enabled (NewECSHandler w name ver) LevelInfo
   \<and> Enabled (NewECSHandler w name ver) LevelWarn
   \<and> Enabled (NewECSHandler w name ver) LevelError
   \<and> (Level r < LevelInfo \<longrightarrow>
        Logger_log fmtTime marshal (NewECSHandler w name ver) r out = out)
   \<and> (LevelInfo \<le> Level r \<longrightarrow>
        Logger_log fmtTime marshal (NewECSHandler w name ver) r out
          = snd (Handle fmtTime marshal (NewECSHandler w name ver) r out))"
  by (simp add: Enabled_def NewECSHandler_def NewJSONHandler_def JSONHandler_Enabled_def
      Logger_log_def LevelDebug_def LevelInfo_def LevelWarn_def LevelError_def)

theorem Enabled_from_Info_witness:
  \<open>Level \<lparr>Time = (), Message = ''ping request received'', Level = LevelDebug,
          Attrs = [(''request_id'', VString ''abc'')]\<rparr> < LevelInfo
   \<and> Logger_log (\<lambda>t. ''2024-05-01T10:00:00Z'') (\<lambda>m. Inr ''{"@timestamp":"2024-05-01T10:00:00Z","ecs.version":"8.11.0","log.level":"INFO","message":"starting server","service.name":"orchestrated-ping","service.version":"1.0.0"}'' :: unit + string)
        (NewECSHandler OsStdout ServiceName ServiceVersion)
        \<lparr>Time = (), Message = ''ping request received'', Level = LevelDebug,
          Attrs = [(''request_id'', VString ''abc'')]\<rparr>
        \<lparr>written = [], failing = False\<rparr> = \<lparr>written = [], failing = False\<rparr>
   \<and> LevelInfo \<le> Level \<lparr>Time = (), Message = ''starting server'', Level = LevelInfo, Attrs = []\<rparr>
   \<and> Logger_log (\<lambda>t. ''2024-05-01T10:00:00Z'') (\<lambda>m. Inr ''{"@timestamp":"2024-05-01T10:00:00Z","ecs.version":"8.11.0","log.level":"INFO","message":"starting server","service.name":"orchestrated-ping","service.version":"1.0.0"}'' :: unit + string)
        (NewECSHandler OsStdout ServiceName ServiceVersion)
        \<lparr>Time = (), Message = ''starting server'', Level = LevelInfo, Attrs = []\<rparr>
        \<lparr>written = [], failing = False\<rparr> = \<lparr>written = [''{"@timestamp":"2024-05-01T10:00:00Z","ecs.version":"8.11.0","log.level":"INFO","message":"starting server","service.name":"orchestrated-ping","service.version":"1.0.0"}'', [CHR 0x0A]], failing = False\<rparr>\<close>
proof -
  let ?f = \<open>\<lambda>t::unit. ''2024-05-01T10:00:00Z''\<close>
  let ?m = \<open>\<lambda>m::string \<rightharpoonup> val. Inr ''{"@timestamp":"2024-05-01T10:00:00Z","ecs.version":"8.11.0","log.level":"INFO","message":"starting server","service.name":"orchestrated-ping","service.version":"1.0.0"}'' :: unit + string\<close>
  let ?d = \<open>\<lparr>Time = (), Message = ''ping request received'', Level = LevelDebug,
          Attrs = [(''request_id'', VString ''abc'')]\<rparr>\<close>
  let ?i = \<open>\<lparr>Time = (), Message = ''starting server'', Level = LevelInfo, Attrs = []\<rparr>\<close>
  let ?out = \<open>\<lparr>written = [], failing = False\<rparr>\<close>
  have lo: \<open>Level ?d < LevelInfo\<close> by (simp add: LevelDebug_def LevelInfo_def)
  have hi: \<open>LevelInfo \<le> Level ?i\<close> by simp
  have a: \<open>Logger_log ?f ?m (NewECSHandler OsStdout ServiceName ServiceVersion) ?d ?out = ?out\<close>
    using Enabled_from_Info [of OsStdout ServiceName ServiceVersion 0 ?d ?f ?m ?out] lo by blast
  have b: \<open>Logger_log ?f ?m (NewECSHandler OsStdout ServiceName ServiceVersion) ?i ?out
      = snd (Handle ?f ?m (NewECSHandler OsStdout ServiceName ServiceVersion) ?i ?out)\<close>
    using Enabled_from_Info [of OsStdout ServiceName ServiceVersion 0 ?i ?f ?m ?out] hi by blast
  show ?thesis
    using lo hi a b by (simp add: Handle_def Stdout_Write_def)
qed

subsection \<open>The metrics middleware\<close>

lemma statusCode_fold_doCall:
  "statusCode (fold doCall cs rw) =
     (if headerCodes cs = [] then statusCode rw else last (headerCodes cs))"
proof (induction cs arbitrary: rw)
  case Nil
  show ?case by simp
next
  case (Cons c cs)
  show ?case
    by (cases c) (simp_all add: Cons.IH WriteHeader_def Write_def)
qed

lemma Itoa_examples:
  "Itoa 200 = ''200''" "Itoa 404 = ''404''" "Itoa 500 = ''500''"
  by code_simp+

lemma Metrics_serve_statusCode:
  "headerCodes (calls (next r)) = [] \<Longrightarrow> statusCode (Metrics_serve next w r) = 200"
  "headerCodes (calls (next r)) = [c] \<Longrightarrow> statusCode (Metrics_serve next w r) = c"
  by (simp_all add: Metrics_serve_def statusCode_fold_doCall StatusOK_def)

lemma Metrics_panicked:
  "outcome (next r) = Panicked \<Longrightarrow>
   Metrics seconds next w r reg = (Panicked, ResponseWriter (Metrics_serve next w r), reg)"
  by (simp add: Metrics_def Let_def)

lemma Metrics_returned:
  assumes "outcome (next r) = Returned"
  shows "fst (Metrics seconds next w r reg) = Returned
    \<and> fst (snd (Metrics seconds next w r reg)) = ResponseWriter (Metrics_serve next w r)
    \<and> (\<forall>ls. HttpRequestsTotal (snd (snd (Metrics seconds next w r reg))) ls =
          HttpRequestsTotal reg ls +
          (if ls = (Method r, RoutePattern (next r), Itoa (statusCode (Metrics_serve next w r)))
           then 1 else 0))
    \<and> (\<forall>ls. HttpDuration (snd (snd (Metrics seconds next w r reg))) ls =
          HttpDuration reg ls @
          (if ls = (Method r, RoutePattern (next r), Itoa (statusCode (Metrics_serve next w r)))
           then [seconds (elapsed (next r))] else []))"
  using assms by (simp add: Metrics_def Let_def Observe_def Inc_def)

text \<open>
  Claim C4. The proxy is there to capture the status of the response: it starts at 200,
  as net/http does, and takes the code passed to \<open>WriteHeader\<close>. It takes it on every
  call, without the guard net/http has. For a handler that calls \<open>WriteHeader\<close> with 404
  and then with 500, the first header-write is 404 and that is what the wrapped writer
  sends, while the proxy holds 500.
\<close>

theorem WriteHeader_twice_records_second:
  "hd (headerCodes [CallWriteHeader 404, CallWriteHeader 500]) = 404
   \<and> status (ResponseWriter (Metrics_serve
      (\<lambda>r. \<lparr>calls = [CallWriteHeader 404, CallWriteHeader 500], outcome = Returned,
             RoutePattern = ''/ping'', elapsed = 1000\<rparr>)
      \<lparr>wroteHeader = False, status = 0, body = []\<rparr>
      \<lparr>Method = ''GET'', URLPath = ''/ping''\<rparr>)) = 404
   \<and> statusCode (Metrics_serve
      (\<lambda>r. \<lparr>calls = [CallWriteHeader 404, CallWriteHeader 500], outcome = Returned,
             RoutePattern = ''/ping'', elapsed = 1000\<rparr>)
      \<lparr>wroteHeader = False, status = 0, body = []\<rparr>
      \<lparr>Method = ''GET'', URLPath = ''/ping''\<rparr>) = 500"
  by (simp add: Metrics_serve_def WriteHeader_def http_WriteHeader_def StatusOK_def)

text \<open>
  Claim C5. When the handler returns, \<open>Metrics\<close> makes one observation and one increment,
  in the series labelled with the request method, the route pattern and the code the proxy
  holds, in decimal (lemma \<open>Metrics_returned\<close>). That code is not always the status of the
  response: for the handler that calls \<open>WriteHeader\<close> with 404 and then with 500, the
  response is sent with status 404, the observation and the increment go to the series
  with status 500, and the series with status 404 is left as it was.
\<close>

theorem Metrics_labels_second_header:
  "status (fst (snd (Metrics seconds
      (\<lambda>r. \<lparr>calls = [CallWriteHeader 404, CallWriteHeader 500], outcome = Returned,
             RoutePattern = ''/ping'', elapsed = 1000\<rparr>)
      \<lparr>wroteHeader = False, status = 0, body = []\<rparr>
      \<lparr>Method = ''GET'', URLPath = ''/ping''\<rparr>
      \<lparr>HttpDuration = (\<lambda>ls. []), HttpRequestsTotal = (\<lambda>ls. 0)\<rparr>))) = 404
   \<and> HttpRequestsTotal (snd (snd (Metrics seconds
      (\<lambda>r. \<lparr>calls = [CallWriteHeader 404, CallWriteHeader 500], outcome = Returned,
             RoutePattern = ''/ping'', elapsed = 1000\<rparr>)
      \<lparr>wroteHeader = False, status = 0, body = []\<rparr>
      \<lparr>Method = ''GET'', URLPath = ''/ping''\<rparr>
      \<lparr>HttpDuration = (\<lambda>ls. []), HttpRequestsTotal = (\<lambda>ls. 0)\<rparr>)))
        = (\<lambda>ls. if ls = (''GET'', ''/ping'', ''500'') then 1 else 0)
   \<and> HttpDuration (snd (snd (Metrics seconds
      (\<lambda>r. \<lparr>calls = [CallWriteHeader 404, CallWriteHeader 500], outcome = Returned,
             RoutePattern = ''/ping'', elapsed = 1000\<rparr>)
      \<lparr>wroteHeader = False, status = 0, body = []\<rparr>
      \<lparr>Method = ''GET'', URLPath = ''/ping''\<rparr>
      \<lparr>HttpDuration = (\<lambda>ls. []), HttpRequestsTotal = (\<lambda>ls. 0)\<rparr>)))
        = (\<lambda>ls. if ls = (''GET'', ''/ping'', ''500'') then [seconds 1000] else [])"
proof -
  let ?n = "\<lambda>r::request. \<lparr>calls = [CallWriteHeader 404, CallWriteHeader 500], outcome = Returned,
             RoutePattern = ''/ping'', elapsed = 1000\<rparr>"
  let ?w = "\<lparr>wroteHeader = False, status = 0, body = []\<rparr>"
  let ?r = "\<lparr>Method = ''GET'', URLPath = ''/ping''\<rparr>"
  have code: "statusCode (Metrics_serve ?n ?w ?r) = 500"
    by (simp add: Metrics_serve_def WriteHeader_def)
  have sent: "status (ResponseWriter (Metrics_serve ?n ?w ?r)) = 404"
    by (simp add: Metrics_serve_def WriteHeader_def http_WriteHeader_def)
  show ?thesis
    by (simp add: Metrics_def Let_def Observe_def Inc_def code sent Itoa_examples fun_eq_iff)
qed

subsection \<open>Loading the configuration\<close>

lemma Atoi_default_port: "Atoi ''8080'' = Some 8080"
  by code_simp

lemma Atoi_examples:
  "Atoi ''80a0'' = None" "Atoi ''9090'' = Some 9090" "Atoi [] = None" "Atoi ''-'' = None"
  "Atoi ''+7'' = Some 7" "Atoi ''-12'' = Some (-12)"
  by code_simp+

lemma ParseDuration_plain_examples:
  "ParseDuration_plain ''abc'' = None" "ParseDuration_plain ''45s'' = Some 45000000000"
  "ParseDuration_plain ''0'' = Some 0" "ParseDuration_plain ''15'' = None"
  by code_simp+

lemma Validate_Load_cfg:
  "Validate \<lparr>Server = \<lparr>Port = p, ReadTimeout = a, WriteTimeout = b, ShutdownTimeout = c\<rparr>,
             Service = \<lparr>Name = ServiceName, Version = ServiceVersion\<rparr>, Environment = e\<rparr>
     = (if p = [] then Some PortEmpty else if Atoi p = None then Some (InvalidPort p) else None)"
  by (simp add: Validate_def ServiceName_def ServiceVersion_def)

lemma Atoi_Nil: "Atoi [] = None"
  by (simp add: Atoi_def)

lemma getEnv_port_nonempty: "getEnv e ''PORT'' ''8080'' \<noteq> []"
  by (simp add: getEnv_def Let_def)

lemma Load_eq:
  "Load pd e =
     (if Atoi (getEnv e ''PORT'' ''8080'') = None
      then Inl (InvalidConfiguration (InvalidPort (getEnv e ''PORT'' ''8080'')))
      else Inr \<lparr>Server =
           \<lparr>Port = getEnv e ''PORT'' ''8080'',
            ReadTimeout = getEnvDuration pd e ''READ_TIMEOUT'' (15 * Second),
            WriteTimeout = getEnvDuration pd e ''WRITE_TIMEOUT'' (15 * Second),
            ShutdownTimeout = getEnvDuration pd e ''SHUTDOWN_TIMEOUT'' (30 * Second)\<rparr>,
         Service = \<lparr>Name = ServiceName, Version = ServiceVersion\<rparr>,
         Environment = getEnv e ''ENVIRONMENT'' ''development''\<rparr>)"
  unfolding Load_def Let_def Validate_Load_cfg
  using getEnv_port_nonempty [of e] by simp

lemma getEnv_eq:
  "getEnv e key d = (if Getenv e key = [] then d else Getenv e key)"
  by (simp add: getEnv_def Let_def)

lemma getEnvDuration_eq:
  "getEnvDuration pd e key d =
     (if Getenv e key = [] then d else case pd (Getenv e key) of None \<Rightarrow> d | Some x \<Rightarrow> x)"
  by (simp add: getEnvDuration_def Let_def)

text \<open>
  Claim C8, amended. \<open>Load\<close> checks the port, and the service name and version, which are
  non-empty constants. It fails exactly when the port, after the default 8080 has been
  applied, is not an integer for \<open>strconv.Atoi\<close>, and then \<open>main\<close> exits with status 1
  before the server is built. Otherwise it returns the configuration: an unset or empty
  variable takes its default (port 8080, read and write timeout 15 s, shutdown timeout 30 s,
  environment development), and so does a timeout that \<open>time.ParseDuration\<close> rejects.
\<close>

theorem Load_validates_port_only:
  "(Load pd e = Inl err \<longleftrightarrow>
      Atoi (getEnv e ''PORT'' ''8080'') = None
      \<and> err = InvalidConfiguration (InvalidPort (getEnv e ''PORT'' ''8080'')))
   \<and> (main_startup pd e = OsExit 1 \<longleftrightarrow> Atoi (getEnv e ''PORT'' ''8080'') = None)
   \<and> (Load pd e = Inr cfg \<longrightarrow>
        main_startup pd e = ServerNew cfg
        \<and> Port (Server cfg) = (if Getenv e ''PORT'' = [] then ''8080'' else Getenv e ''PORT'')
        \<and> ReadTimeout (Server cfg) =
            (if Getenv e ''READ_TIMEOUT'' = [] then 15 * Second
             else case pd (Getenv e ''READ_TIMEOUT'') of None \<Rightarrow> 15 * Second | Some d \<Rightarrow> d)
        \<and> WriteTimeout (Server cfg) =
            (if Getenv e ''WRITE_TIMEOUT'' = [] then 15 * Second
             else case pd (Getenv e ''WRITE_TIMEOUT'') of None \<Rightarrow> 15 * Second | Some d \<Rightarrow> d)
        \<and> ShutdownTimeout (Server cfg) =
            (if Getenv e ''SHUTDOWN_TIMEOUT'' = [] then 30 * Second
             else case pd (Getenv e ''SHUTDOWN_TIMEOUT'') of None \<Rightarrow> 30 * Second | Some d \<Rightarrow> d)
        \<and> Name (Service cfg) = ServiceName \<and> Version (Service cfg) = ServiceVersion
        \<and> Environment cfg =
            (if Getenv e ''ENVIRONMENT'' = [] then ''development'' else Getenv e ''ENVIRONMENT''))
   \<and> Load pd Map.empty =
        Inr \<lparr>Server = \<lparr>Port = ''8080'', ReadTimeout = 15 * Second, WriteTimeout = 15 * Second,
                       ShutdownTimeout = 30 * Second\<rparr>,
            Service = \<lparr>Name = ServiceName, Version = ServiceVersion\<rparr>,
            Environment = ''development''\<rparr>"
proof (intro conjI impI)
  show "Load pd e = Inl err \<longleftrightarrow>
      Atoi (getEnv e ''PORT'' ''8080'') = None
      \<and> err = InvalidConfiguration (InvalidPort (getEnv e ''PORT'' ''8080''))"
    unfolding Load_eq by auto
  show "main_startup pd e = OsExit 1 \<longleftrightarrow> Atoi (getEnv e ''PORT'' ''8080'') = None"
    unfolding main_startup_def Load_eq by simp
  show "Load pd Map.empty =
        Inr \<lparr>Server = \<lparr>Port = ''8080'', ReadTimeout = 15 * Second, WriteTimeout = 15 * Second,
                       ShutdownTimeout = 30 * Second\<rparr>,
            Service = \<lparr>Name = ServiceName, Version = ServiceVersion\<rparr>,
            Environment = ''development''\<rparr>"
    unfolding Load_eq by (simp add: getEnv_eq getEnvDuration_eq Getenv_def Atoi_default_port)
next
  assume ok: "Load pd e = Inr cfg"
  then have cfg: "cfg = \<lparr>Server =
           \<lparr>Port = getEnv e ''PORT'' ''8080'',
            ReadTimeout = getEnvDuration pd e ''READ_TIMEOUT'' (15 * Second),
            WriteTimeout = getEnvDuration pd e ''WRITE_TIMEOUT'' (15 * Second),
            ShutdownTimeout = getEnvDuration pd e ''SHUTDOWN_TIMEOUT'' (30 * Second)\<rparr>,
         Service = \<lparr>Name = ServiceName, Version = ServiceVersion\<rparr>,
         Environment = getEnv e ''ENVIRONMENT'' ''development''\<rparr>"
    unfolding Load_eq by (simp split: if_splits)
  show "main_startup pd e = ServerNew cfg"
    by (simp add: main_startup_def ok)
  show "Port (Server cfg) = (if Getenv e ''PORT'' = [] then ''8080'' else Getenv e ''PORT'')"
    by (simp add: cfg getEnv_eq)
  show "ReadTimeout (Server cfg) =
            (if Getenv e ''READ_TIMEOUT'' = [] then 15 * Second
             else case pd (Getenv e ''READ_TIMEOUT'') of None \<Rightarrow> 15 * Second | Some d \<Rightarrow> d)"
    by (simp add: cfg getEnvDuration_eq)
  show "WriteTimeout (Server cfg) =
            (if Getenv e ''WRITE_TIMEOUT'' = [] then 15 * Second
             else case pd (Getenv e ''WRITE_TIMEOUT'') of None \<Rightarrow> 15 * Second | Some d \<Rightarrow> d)"
    by (simp add: cfg getEnvDuration_eq)
  show "ShutdownTimeout (Server cfg) =
            (if Getenv e ''SHUTDOWN_TIMEOUT'' = [] then 30 * Second
             else case pd (Getenv e ''SHUTDOWN_TIMEOUT'') of None \<Rightarrow> 30 * Second | Some d \<Rightarrow> d)"
    by (simp add: cfg getEnvDuration_eq)
  show "Name (Service cfg) = ServiceName" by (simp add: cfg)
  show "Version (Service cfg) = ServiceVersion" by (simp add: cfg)
  show "Environment cfg =
            (if Getenv e ''ENVIRONMENT'' = [] then ''development'' else Getenv e ''ENVIRONMENT'')"
    by (simp add: cfg getEnv_eq)
qed


theorem Load_validates_port_only_witness:
  "Atoi (getEnv [''PORT'' \<mapsto> ''80a0''] ''PORT'' ''8080'') = None
   \<and> Load ParseDuration_plain [''PORT'' \<mapsto> ''80a0''] =
       Inl (InvalidConfiguration (InvalidPort ''80a0''))
   \<and> main_startup ParseDuration_plain [''PORT'' \<mapsto> ''80a0''] = OsExit 1
   \<and> Load ParseDuration_plain [''PORT'' \<mapsto> ''9090'', ''SHUTDOWN_TIMEOUT'' \<mapsto> ''45s''] =
       Inr \<lparr>Server = \<lparr>Port = ''9090'', ReadTimeout = 15000000000, WriteTimeout = 15000000000,
                      ShutdownTimeout = 45000000000\<rparr>,
            Service = \<lparr>Name = ''orchestrated-ping'', Version = ''1.0.0''\<rparr>,
            Environment = ''development''\<rparr>
   \<and> main_startup ParseDuration_plain [''PORT'' \<mapsto> ''9090'', ''SHUTDOWN_TIMEOUT'' \<mapsto> ''45s''] =
       ServerNew \<lparr>Server = \<lparr>Port = ''9090'', ReadTimeout = 15000000000, WriteTimeout = 15000000000,
                      ShutdownTimeout = 45000000000\<rparr>,
            Service = \<lparr>Name = ''orchestrated-ping'', Version = ''1.0.0''\<rparr>,
            Environment = ''development''\<rparr>"
proof -
  let ?e1 = "[''PORT'' \<mapsto> ''80a0'']"
  let ?e2 = "[''PORT'' \<mapsto> ''9090'', ''SHUTDOWN_TIMEOUT'' \<mapsto> ''45s'']"
  let ?cfg = "\<lparr>Server = \<lparr>Port = ''9090'', ReadTimeout = 15000000000, WriteTimeout = 15000000000,
                      ShutdownTimeout = 45000000000\<rparr>,
            Service = \<lparr>Name = ''orchestrated-ping'', Version = ''1.0.0''\<rparr>,
            Environment = ''development''\<rparr>"
  have p1: "getEnv ?e1 ''PORT'' ''8080'' = ''80a0''"
    by (simp add: getEnv_eq Getenv_def)
  have bad: "Atoi (getEnv ?e1 ''PORT'' ''8080'') = None"
    by (simp add: p1 Atoi_examples)
  have a: "Load ParseDuration_plain ?e1 = Inl (InvalidConfiguration (InvalidPort ''80a0''))"
    using Load_validates_port_only
      [of ParseDuration_plain ?e1 "InvalidConfiguration (InvalidPort ''80a0'')"] bad p1
    by simp
  have b: "main_startup ParseDuration_plain ?e1 = OsExit 1"
    using Load_validates_port_only [of ParseDuration_plain ?e1] bad by blast
  have ok: "Load ParseDuration_plain ?e2 = Inr ?cfg"
    by (simp add: Load_eq getEnv_eq getEnvDuration_eq Getenv_def Atoi_examples
        ParseDuration_plain_examples Second_def ServiceName_def ServiceVersion_def)
  have c: "main_startup ParseDuration_plain ?e2 = ServerNew ?cfg"
    using Load_validates_port_only [of ParseDuration_plain ?e2 _ ?cfg] ok by blast
  show ?thesis using bad a b ok c by simp
qed

text \<open>
  The claim as stated fails for an environment with an invalid read timeout: \<open>Load\<close>
  returns no error, the timeout is the default, and the server is built.
\<close>

theorem Load_invalid_timeout_counterexample:
  "ParseDuration_plain ''abc'' = None
   \<and> Load ParseDuration_plain [''READ_TIMEOUT'' \<mapsto> ''abc''] =
       Inr \<lparr>Server = \<lparr>Port = ''8080'', ReadTimeout = 15000000000, WriteTimeout = 15000000000,
                      ShutdownTimeout = 30000000000\<rparr>,
            Service = \<lparr>Name = ''orchestrated-ping'', Version = ''1.0.0''\<rparr>,
            Environment = ''development''\<rparr>
   \<and> main_startup ParseDuration_plain [''READ_TIMEOUT'' \<mapsto> ''abc''] =
       ServerNew \<lparr>Server = \<lparr>Port = ''8080'', ReadTimeout = 15000000000, WriteTimeout = 15000000000,
                      ShutdownTimeout = 30000000000\<rparr>,
            Service = \<lparr>Name = ''orchestrated-ping'', Version = ''1.0.0''\<rparr>,
            Environment = ''development''\<rparr>"
  by (simp add: main_startup_def Load_eq getEnv_eq getEnvDuration_eq Getenv_def Atoi_default_port
      ParseDuration_plain_examples Second_def ServiceName_def ServiceVersion_def)

end
